theory Spec2Isabelle
  imports Complex_Main
begin

section \<open>Credit ledger (src/app/api/credit/transactions/route.ts)\<close>

text \<open>
  JavaScript numbers are modelled as \<^typ>\<open>real\<close>: arithmetic is exact, and rounding of
  IEEE doubles is not part of the model. A request body is a JSON object whose fields
  are JSON values; an absent field is \<open>None\<close>.
\<close>

datatype json = JNull | JBool bool | JNum real | JStr string | JObj

datatype tx_type = CREDIT | DEBIT | PAYMENT | ADJUSTMENT | INTEREST | FEE

record tx_body =
  b_accountId :: "json option"
  b_type :: "json option"
  b_amount :: "json option"
  b_description :: "json option"
  b_reference :: "json option"
  b_metadata :: "json option"

record tx_data =
  v_accountId :: string
  v_type :: tx_type
  v_amount :: real
  v_description :: "string option"
  v_reference :: "string option"
  v_metadata :: "json option"

record credit_account =
  acc_id :: string
  customerId :: string
  shopId :: string
  creditLimit :: real
  currentBalance :: real
  availableCredit :: real
  creditScore :: real
  isActive :: bool
  dueDate :: "int option"
  lastPaymentDate :: "int option"
  updatedAt :: int

record credit_transaction =
  tx_accountId :: string
  tx_type :: tx_type
  tx_amount :: real
  balance :: real
  tx_description :: "string option"
  tx_reference :: "string option"
  tx_metadata :: json

record customer =
  cust_id :: string
  cust_shopId :: string
  totalOrders :: int
  totalSpent :: real

record credit_settings =
  set_shopId :: string
  minCreditScore :: real
  gracePeriod :: real

record db =
  creditAccounts :: "credit_account list"
  creditTransactions :: "credit_transaction list"
  customers :: "customer list"
  creditSettings :: "credit_settings list"

datatype response = Response (status: nat) (message: string)

subsection \<open>transactionSchema\<close>

fun z_string :: "json option \<Rightarrow> string option" where
  "z_string (Some (JStr s)) = Some s"
| "z_string _ = None"

fun z_number :: "json option \<Rightarrow> real option" where
  "z_number (Some (JNum x)) = Some x"
| "z_number _ = None"

text \<open>\<open>z.string().optional()\<close>: an absent field is accepted, any non-string value is not.\<close>

fun z_string_optional :: "json option \<Rightarrow> string option option" where
  "z_string_optional None = Some None"
| "z_string_optional (Some (JStr s)) = Some (Some s)"
| "z_string_optional _ = None"

definition z_enum_type :: "json option \<Rightarrow> tx_type option" where
  "z_enum_type j =
     (case z_string j of
        None \<Rightarrow> None
      | Some s \<Rightarrow>
          if s = ''CREDIT'' then Some CREDIT
          else if s = ''DEBIT'' then Some DEBIT
          else if s = ''PAYMENT'' then Some PAYMENT
          else if s = ''ADJUSTMENT'' then Some ADJUSTMENT
          else if s = ''INTEREST'' then Some INTEREST
          else if s = ''FEE'' then Some FEE
          else None)"

text \<open>\<open>transactionSchema.parse\<close>; \<open>None\<close> stands for the thrown \<open>ZodError\<close>.\<close>

definition transactionSchema_parse :: "tx_body \<Rightarrow> tx_data option" where
  "transactionSchema_parse b =
     (case z_string (b_accountId b) of
        None \<Rightarrow> None
      | Some aid \<Rightarrow>
     (case z_enum_type (b_type b) of
        None \<Rightarrow> None
      | Some ty \<Rightarrow>
     (case z_number (b_amount b) of
        None \<Rightarrow> None
      | Some amt \<Rightarrow>
     (case z_string_optional (b_description b) of
        None \<Rightarrow> None
      | Some d \<Rightarrow>
     (case z_string_optional (b_reference b) of
        None \<Rightarrow> None
      | Some r \<Rightarrow>
          Some \<lparr>v_accountId = aid, v_type = ty, v_amount = amt, v_description = d,
                v_reference = r, v_metadata = b_metadata b\<rparr>)))))"

subsection \<open>calculateCreditScore\<close>

text \<open>The helper of the transactions route; \<open>settings\<close> is \<open>None\<close> for \<open>null\<close>.\<close>

definition calculateCreditScore :: "customer \<Rightarrow> credit_settings option \<Rightarrow> real" where
  "calculateCreditScore c settings =
     (let score = 100;
          score = (if totalOrders c < 5 then score - 10
                   else if totalOrders c < 10 then score - 5
                   else score);
          score = (if totalSpent c < 1000 then score - 15
                   else if totalSpent c < 5000 then score - 8
                   else if totalSpent c < 10000 then score - 3
                   else score);
          score = (if totalSpent c > 50000 then score + 10
                   else if totalSpent c > 20000 then score + 5
                   else score);
          score = (case settings of
                     None \<Rightarrow> score
                   | Some s \<Rightarrow> if score < minCreditScore s then minCreditScore s else score)
      in min 100 (max 0 score))"

subsection \<open>POST: apply a transaction\<close>

text \<open>The \<open>switch\<close> on the transaction type: new balance and new available credit.\<close>

fun apply_type :: "tx_type \<Rightarrow> real \<Rightarrow> real \<Rightarrow> real \<Rightarrow> real \<times> real" where
  "apply_type CREDIT amt bal av = (bal + amt, av + amt)"
| "apply_type DEBIT amt bal av = (bal - amt, av - amt)"
| "apply_type PAYMENT amt bal av = (bal - amt, av + amt)"
| "apply_type ADJUSTMENT amt bal av = (amt, amt)"
| "apply_type INTEREST amt bal av = (bal + amt, av)"
| "apply_type FEE amt bal av = (bal - amt, av)"

text \<open>JavaScript truthiness of a JSON value, for \<open>validatedData.metadata || null\<close>.\<close>

fun truthy :: "json \<Rightarrow> bool" where
  "truthy JNull = False"
| "truthy (JBool b) = b"
| "truthy (JNum x) = (x \<noteq> 0)"
| "truthy (JStr s) = (s \<noteq> [])"
| "truthy JObj = True"

definition metadata_or_null :: "json option \<Rightarrow> json" where
  "metadata_or_null m = (case m of None \<Rightarrow> JNull | Some j \<Rightarrow> if truthy j then j else JNull)"

text \<open>\<open>db.creditAccount.update({ where: { id }, data })\<close>.\<close>

definition update_account ::
  "string \<Rightarrow> (credit_account \<Rightarrow> credit_account) \<Rightarrow> db \<Rightarrow> db" where
  "update_account i f st =
     st\<lparr>creditAccounts := map (\<lambda>a. if acc_id a = i then f a else a) (creditAccounts st)\<rparr>"

text \<open>
  The second update of the handler: for a \<open>PAYMENT\<close> the last payment date is set and
  the credit score recomputed; \<open>updateData\<close> is empty for every other type.
\<close>

definition payment_update :: "string \<Rightarrow> int \<Rightarrow> tx_data \<Rightarrow> credit_account \<Rightarrow> db \<Rightarrow> db" where
  "payment_update shop now v acct st =
     (if v_type v = PAYMENT then
        (case find (\<lambda>c. cust_id c = customerId acct) (customers st) of
           None \<Rightarrow>
             update_account (v_accountId v) (\<lambda>a. a\<lparr>lastPaymentDate := Some now\<rparr>) st
         | Some c \<Rightarrow>
             (let newCreditScore =
                    calculateCreditScore c (find (\<lambda>s. set_shopId s = shop) (creditSettings st))
              in if newCreditScore \<noteq> creditScore acct
                 then update_account (v_accountId v)
                        (\<lambda>a. a\<lparr>lastPaymentDate := Some now, creditScore := newCreditScore\<rparr>) st
                 else update_account (v_accountId v)
                        (\<lambda>a. a\<lparr>lastPaymentDate := Some now\<rparr>) st))
      else st)"

text \<open>
  The handler. \<open>auth\<close> is the result of \<open>verifyAuth\<close> (the shop of the bearer token, or
  \<open>None\<close>), \<open>now\<close> the value of \<open>new Date()\<close>, \<open>body\<close> the parsed request body. The
  result is the HTTP response (status and message) and the database after the request.
  The database calls are taken to succeed, and the body to be a JSON object: the
  handler's last resort, status 500 for any other exception, is outside the model.
\<close>

definition POST :: "string option \<Rightarrow> int \<Rightarrow> tx_body \<Rightarrow> db \<Rightarrow> response \<times> db" where
  "POST auth now body st =
     (case auth of
        None \<Rightarrow> (Response 401 ''Unauthorized'', st)
      | Some shop \<Rightarrow>
     (case transactionSchema_parse body of
        None \<Rightarrow> (Response 400 ''Validation error'', st)
      | Some v \<Rightarrow>
     (case find (\<lambda>a. acc_id a = v_accountId v \<and> shopId a = shop) (creditAccounts st) of
        None \<Rightarrow> (Response 404 ''Credit account not found'', st)
      | Some creditAccount \<Rightarrow>
          if \<not> isActive creditAccount
          then (Response 400 ''Credit account is not active'', st)
          else
            (let (newBalance, newAvailableCredit) =
                   apply_type (v_type v) (v_amount v)
                     (currentBalance creditAccount) (availableCredit creditAccount)
             in if newBalance > creditLimit creditAccount
                then (Response 400 ''Transaction would exceed credit limit'', st)
                else
                  (let newAvailableCredit =
                         (if newAvailableCredit > creditLimit creditAccount
                          then creditLimit creditAccount else newAvailableCredit);
                       transaction =
                         \<lparr>tx_accountId = v_accountId v, tx_type = v_type v,
                          tx_amount = v_amount v, balance = newBalance,
                          tx_description = v_description v, tx_reference = v_reference v,
                          tx_metadata = metadata_or_null (v_metadata v)\<rparr>;
                       st1 = st\<lparr>creditTransactions := creditTransactions st @ [transaction]\<rparr>;
                       st2 = update_account (v_accountId v)
                               (\<lambda>a. a\<lparr>currentBalance := newBalance,
                                       availableCredit := newAvailableCredit,
                                       updatedAt := now\<rparr>) st1;
                       st3 = payment_update shop now v creditAccount st2
                   in (Response 200 ''Transaction processed successfully'', st3))))))"

section \<open>Credit account creation (the \<open>POST\<close> handler of the credit accounts route)\<close>

text \<open>\<open>ToIntegerOrInfinity\<close> on a finite number: truncation towards zero.\<close>

definition js_trunc :: "real \<Rightarrow> int" where
  "js_trunc x = (if 0 \<le> x then \<lfloor>x\<rfloor> else \<lceil>x\<rceil>)"

record account_body =
  c_customerId :: "json option"
  c_shopId :: "json option"
  c_creditLimit :: "json option"

record account_data =
  d_customerId :: string
  d_shopId :: string
  d_creditLimit :: real

text \<open>\<open>createCreditAccountSchema.parse\<close>: the limit is a number with \<open>min(0)\<close>.\<close>

definition createCreditAccountSchema_parse :: "account_body \<Rightarrow> account_data option" where
  "createCreditAccountSchema_parse b =
     (case z_string (c_customerId b) of
        None \<Rightarrow> None
      | Some cid \<Rightarrow>
     (case z_string (c_shopId b) of
        None \<Rightarrow> None
      | Some sid \<Rightarrow>
     (case z_number (c_creditLimit b) of
        None \<Rightarrow> None
      | Some cl \<Rightarrow>
          if cl < 0 then None
          else Some \<lparr>d_customerId = cid, d_shopId = sid, d_creditLimit = cl\<rparr>)))"

text \<open>
  The handler that creates a credit account and writes the initial \<open>CREDIT\<close> entry.
  Two values come from the database layer, whose schema is not among the sources, and
  are parameters here: \<open>newId\<close>, the generated id of the new row, and
  \<open>defaultBalance\<close>, the column default of \<open>currentBalance\<close> (the handler passes no
  \<open>currentBalance\<close> to \<open>create\<close>). The helper \<open>calculateCreditScore\<close> of this file is
  textually the one of the transactions route.
\<close>

definition POST_creditAccount ::
  "string option \<Rightarrow> int \<Rightarrow> string \<Rightarrow> real \<Rightarrow> account_body \<Rightarrow> db \<Rightarrow> response \<times> db" where
  "POST_creditAccount auth now newId defaultBalance body st =
     (case auth of
        None \<Rightarrow> (Response 401 ''Unauthorized'', st)
      | Some shop \<Rightarrow>
     (case createCreditAccountSchema_parse body of
        None \<Rightarrow> (Response 400 ''Validation error'', st)
      | Some v \<Rightarrow>
          if d_shopId v \<noteq> shop
          then (Response 401 ''Unauthorized: Shop ID mismatch'', st)
          else
     (case find (\<lambda>c. cust_id c = d_customerId v \<and> cust_shopId c = d_shopId v) (customers st) of
        None \<Rightarrow> (Response 404 ''Customer not found'', st)
      | Some c \<Rightarrow>
     (case find (\<lambda>a. customerId a = d_customerId v \<and> shopId a = d_shopId v)
             (creditAccounts st) of
        Some existingAccount \<Rightarrow>
          (Response 400 ''Credit account already exists for this customer'', st)
      | None \<Rightarrow>
          (let settings = find (\<lambda>s. set_shopId s = d_shopId v) (creditSettings st);
               score = calculateCreditScore c settings;
               creditAccount =
                 \<lparr>acc_id = newId, customerId = d_customerId v, shopId = d_shopId v,
                  creditLimit = d_creditLimit v, currentBalance = defaultBalance,
                  availableCredit = d_creditLimit v, creditScore = score, isActive = True,
                  dueDate = (case settings of
                               None \<Rightarrow> None
                             | Some s \<Rightarrow>
                                 Some (js_trunc (real_of_int now + gracePeriod s * 24 * 60 * 60 * 1000))),
                  lastPaymentDate = None, updatedAt = now\<rparr>;
               st1 = st\<lparr>creditAccounts := creditAccounts st @ [creditAccount]\<rparr>;
               transaction =
                 \<lparr>tx_accountId = acc_id creditAccount, tx_type = CREDIT,
                  tx_amount = d_creditLimit v, balance = d_creditLimit v,
                  tx_description = Some ''Initial credit limit setup'',
                  tx_reference = None, tx_metadata = JObj\<rparr>;
               st2 = st1\<lparr>creditTransactions := creditTransactions st1 @ [transaction]\<rparr>
           in (Response 200 ''Credit account created successfully'', st2))))))"

section \<open>The helper of the credit scoring route\<close>

text \<open>
  The scoring route has a \<open>calculateCreditScore\<close> of its own, with other bands.
  \<open>orders\<close> holds the \<open>createdAt\<close> of the customer's orders, or is \<open>None\<close> when the
  customer was loaded without them; \<open>now\<close> is \<open>Date.now()\<close>.
\<close>

definition calculateCreditScore_scoring ::
  "int \<Rightarrow> customer \<Rightarrow> int list option \<Rightarrow> credit_settings option \<Rightarrow> real" where
  "calculateCreditScore_scoring now c orders settings =
     (let score = 100;
          orderCount = totalOrders c;
          score = (if orderCount < 5 then score - 15
                   else if orderCount < 10 then score - 8
                   else if orderCount < 20 then score - 3
                   else if orderCount \<ge> 50 then score + 5
                   else score);
          spent = totalSpent c;
          score = (if spent < 1000 then score - 20
                   else if spent < 5000 then score - 10
                   else if spent < 10000 then score - 5
                   else if spent < 20000 then score - 2
                   else if spent \<ge> 50000 then score + 10
                   else if spent \<ge> 20000 then score + 5
                   else score);
          avgOrderValue = (if orderCount > 0 then spent / real_of_int orderCount else 0);
          score = (if avgOrderValue < 100 then score - 10
                   else if avgOrderValue < 500 then score - 5
                   else if avgOrderValue \<ge> 1000 then score + 5
                   else score);
          recentOrders =
            (case orders of
               None \<Rightarrow> []
             | Some os \<Rightarrow>
                 filter (\<lambda>createdAt. real_of_int (now - createdAt) / (1000 * 60 * 60 * 24) \<le> 30) os);
          score = (if length recentOrders = 0 then score - 10
                   else if length recentOrders \<ge> 3 then score + 5
                   else score);
          score = (case settings of
                     None \<Rightarrow> score
                   | Some s \<Rightarrow> if score < minCreditScore s then minCreditScore s else score)
      in min 100 (max 0 score))"

section \<open>Recurring delivery scheduler (\<open>calculateNextDelivery\<close>)\<close>

subsection \<open>Dates\<close>

text \<open>
  A \<open>Date\<close> holds a time value, an integral number of milliseconds since the epoch, or
  is an Invalid Date (time value \<open>NaN\<close>). Local time is UTC plus a fixed offset \<open>tz\<close>
  in milliseconds: daylight-saving transitions are not modelled, and neither is the
  bound of \<open>8.64e15\<close> ms on time values.
\<close>

datatype jsdate = InvalidDate | Date int

definition msPerDay :: int where
  "msPerDay = 86400000"

text \<open>Relational comparison of two dates: \<open>false\<close> as soon as one of them is invalid.\<close>

fun date_lt :: "jsdate \<Rightarrow> jsdate \<Rightarrow> bool" where
  "date_lt (Date a) (Date b) = (a < b)"
| "date_lt _ _ = False"

fun date_le :: "jsdate \<Rightarrow> jsdate \<Rightarrow> bool" where
  "date_le (Date a) (Date b) = (a \<le> b)"
| "date_le _ _ = False"

fun date_gt :: "jsdate \<Rightarrow> jsdate \<Rightarrow> bool" where
  "date_gt (Date a) (Date b) = (a > b)"
| "date_gt _ _ = False"

text \<open>
  \<open>d.setHours(hours, minutes, 0, 0)\<close>: the local calendar day of \<open>d\<close> is kept and the
  time within the day replaced. A numeric argument is \<open>None\<close> when it is \<open>NaN\<close>,
  \<open>undefined\<close> or not finite, and then the date becomes invalid.
\<close>

fun setHours :: "int \<Rightarrow> jsdate \<Rightarrow> real option \<Rightarrow> real option \<Rightarrow> jsdate" where
  "setHours tz (Date t) (Some hours) (Some minutes) =
     Date (((t + tz) div msPerDay) * msPerDay
           + js_trunc hours * 3600000 + js_trunc minutes * 60000 - tz)"
| "setHours tz _ _ _ = InvalidDate"

text \<open>
  \<open>d.setDate(d.getDate() + n)\<close>: the day of the month overflows into the next
  months, so the date moves by \<open>n\<close> whole days.
\<close>

fun setDate_plus :: "jsdate \<Rightarrow> int \<Rightarrow> jsdate" where
  "setDate_plus (Date t) n = Date (t + n * msPerDay)"
| "setDate_plus InvalidDate n = InvalidDate"

text \<open>\<open>getDay()\<close> of a valid date: 0 is Sunday; the epoch was a Thursday.\<close>

definition getDay :: "int \<Rightarrow> int \<Rightarrow> nat" where
  "getDay tz t = nat (((t + tz) div msPerDay + 4) mod 7)"

subsection \<open>Strings\<close>

text \<open>\<open>s.split(sep)\<close> for a one-character separator.\<close>

fun split_js :: "char \<Rightarrow> string \<Rightarrow> string list" where
  "split_js sep [] = [[]]"
| "split_js sep (c # cs) =
     (if c = sep then [] # split_js sep cs
      else (case split_js sep cs of
              [] \<Rightarrow> [[c]]
            | p # ps \<Rightarrow> (c # p) # ps))"

text \<open>Strings are ASCII: \<open>trim\<close> strips ASCII white space, \<open>toLowerCase\<close> maps A to Z.\<close>

definition is_space :: "char \<Rightarrow> bool" where
  "is_space c = ((of_char c :: nat) = 32 \<or> (9 \<le> (of_char c :: nat) \<and> (of_char c :: nat) \<le> 13))"

definition trim :: "string \<Rightarrow> string" where
  "trim s = rev (dropWhile is_space (rev (dropWhile is_space s)))"

definition toLowerCase :: "string \<Rightarrow> string" where
  "toLowerCase s =
     map (\<lambda>c. if 65 \<le> (of_char c :: nat) \<and> (of_char c :: nat) \<le> 90
               then char_of ((of_char c :: nat) + 32) else c) s"

definition dayNames :: "string list" where
  "dayNames = [''sunday'', ''monday'', ''tuesday'', ''wednesday'', ''thursday'',
               ''friday'', ''saturday'']"

subsection \<open>The three \<open>while\<close> loops\<close>

text \<open>
  Each loop is a partial function into \<open>option\<close>: \<open>None\<close> would be a loop that never
  exits. \<open>now\<close> is the value of \<open>new Date()\<close> taken at the start of the call, a valid
  date.
\<close>

partial_function (option) daily_loop :: "int \<Rightarrow> jsdate \<Rightarrow> jsdate option" where
  "daily_loop now nextDate =
     (if date_le nextDate (Date now) then daily_loop now (setDate_plus nextDate 1)
      else Some nextDate)"

partial_function (option) weekly_loop :: "int \<Rightarrow> jsdate \<Rightarrow> jsdate option" where
  "weekly_loop now nextDate =
     (if date_le nextDate (Date now) then weekly_loop now (setDate_plus nextDate 7)
      else Some nextDate)"

text \<open>
  \<open>dayNames[nextDate.getDay()]\<close>, which is \<open>undefined\<close> (here \<open>None\<close>) on an invalid
  date, and \<open>days.includes(dayOfWeek)\<close>.
\<close>

fun dayOfWeek :: "int \<Rightarrow> jsdate \<Rightarrow> string option" where
  "dayOfWeek tz (Date t) = Some (dayNames ! getDay tz t)"
| "dayOfWeek tz InvalidDate = None"

fun includes_js :: "string list \<Rightarrow> string option \<Rightarrow> bool" where
  "includes_js days (Some d) = List.member days d"
| "includes_js days None = False"

text \<open>
  The loop of the \<open>custom\<close> case: \<open>continue\<close> goes back to the loop condition,
  \<open>break\<close> leaves the loop.
\<close>

partial_function (option) custom_loop ::
  "int \<Rightarrow> int \<Rightarrow> string list \<Rightarrow> jsdate \<Rightarrow> jsdate option" where
  "custom_loop tz now days nextDate =
     (if date_le nextDate (Date now) then
        (let nextDate = setDate_plus nextDate 1
         in if \<not> includes_js days (dayOfWeek tz nextDate) then custom_loop tz now days nextDate
            else if date_gt nextDate (Date now) then Some nextDate
            else custom_loop tz now days nextDate)
      else Some nextDate)"

subsection \<open>calculateNextDelivery\<close>

text \<open>
  \<open>toNumber\<close> stands for JavaScript's \<open>Number\<close> applied to a string: \<open>Some x\<close> for a
  finite number, \<open>None\<close> for \<open>NaN\<close> and the infinities (which \<open>setHours\<close> treats
  alike). \<open>deliveryDays\<close> is \<open>None\<close> for \<open>null\<close> or \<open>undefined\<close>. The result is
  \<open>None\<close> if the call does not return.
\<close>

definition calculateNextDelivery ::
  "(string \<Rightarrow> real option) \<Rightarrow> int \<Rightarrow> int \<Rightarrow> string \<Rightarrow> string \<Rightarrow> string option \<Rightarrow> jsdate
     \<Rightarrow> jsdate option" where
  "calculateNextDelivery toNumber tz now frequency deliveryTime deliveryDays startDate =
     (let nextDate = (if date_lt startDate (Date now) then Date now else startDate);
          parts = map toNumber (split_js (CHR '':'') deliveryTime);
          hours = (case parts of [] \<Rightarrow> None | h # _ \<Rightarrow> h);
          minutes = (case parts of _ # m # _ \<Rightarrow> m | _ \<Rightarrow> None);
          nextDate = setHours tz nextDate hours minutes;
          nextDate = (if date_le nextDate (Date now) then setDate_plus nextDate 1 else nextDate)
      in if frequency = ''daily'' then daily_loop now nextDate
         else if frequency = ''weekly'' then weekly_loop now nextDate
         else if frequency = ''custom'' then
           (case deliveryDays of
              None \<Rightarrow> Some nextDate
            | Some s \<Rightarrow>
                if s = [] then Some nextDate
                else custom_loop tz now (map (\<lambda>d. toLowerCase (trim d)) (split_js (CHR '','') s))
                       nextDate)
         else Some nextDate)"

subsection \<open>Well-formed delivery times and decimal numerals\<close>

definition is_digit :: "char \<Rightarrow> bool" where
  "is_digit c = (48 \<le> (of_char c :: nat) \<and> (of_char c :: nat) \<le> 57)"

definition digit_val :: "char \<Rightarrow> nat" where
  "digit_val c = (of_char c :: nat) - 48"

text \<open>
  The regular expression of the subscription schemas for \<open>deliveryTime\<close>,
  \<^verbatim>\<open>^([0-1]?[0-9]|2[0-3]):[0-5][0-9]$\<close>.
\<close>

fun valid_deliveryTime :: "string \<Rightarrow> bool" where
  "valid_deliveryTime [h, c, m1, m2] =
     (is_digit h \<and> c = CHR '':'' \<and> is_digit m1 \<and> digit_val m1 \<le> 5 \<and> is_digit m2)"
| "valid_deliveryTime [h1, h2, c, m1, m2] =
     (is_digit h1 \<and> is_digit h2
      \<and> (digit_val h1 \<le> 1 \<or> (digit_val h1 = 2 \<and> digit_val h2 \<le> 3))
      \<and> c = CHR '':'' \<and> is_digit m1 \<and> digit_val m1 \<le> 5 \<and> is_digit m2)"
| "valid_deliveryTime _ = False"

text \<open>The value of a string of decimal digits.\<close>

definition decimal :: "string \<Rightarrow> nat" where
  "decimal s = foldl (\<lambda>a c. 10 * a + digit_val c) 0 s"

text \<open>
  What the theorems below ask of \<open>Number\<close>: a non-empty string of ASCII digits is read
  as its decimal value. Nothing is asked on other strings.
\<close>

definition reads_decimals :: "(string \<Rightarrow> real option) \<Rightarrow> bool" where
  "reads_decimals toNumber =
     (\<forall>s. s \<noteq> [] \<and> list_all is_digit s \<longrightarrow> toNumber s = Some (real (decimal s)))"

text \<open>An instance for evaluation: it answers \<open>NaN\<close> on every string that is not a decimal numeral.\<close>

definition Number_decimal :: "string \<Rightarrow> real option" where
  "Number_decimal s = (if s \<noteq> [] \<and> list_all is_digit s then Some (real (decimal s)) else None)"

section \<open>Concrete data for evaluation\<close>

definition demo_customer :: customer where
  "demo_customer =
     \<lparr>cust_id = ''cust1'', cust_shopId = ''shop1'', totalOrders = 3, totalSpent = 500\<rparr>"

definition demo_account :: credit_account where
  "demo_account =
     \<lparr>acc_id = ''acc1'', customerId = ''cust1'', shopId = ''shop1'', creditLimit = 100,
      currentBalance = 0, availableCredit = 100, creditScore = 75, isActive = True,
      dueDate = None, lastPaymentDate = None, updatedAt = 0\<rparr>"

definition demo_db :: db where
  "demo_db = \<lparr>creditAccounts = [demo_account], creditTransactions = [],
              customers = [demo_customer], creditSettings = []\<rparr>"

definition demo_body :: "string \<Rightarrow> real \<Rightarrow> tx_body" where
  "demo_body ty amt =
     \<lparr>b_accountId = Some (JStr ''acc1''), b_type = Some (JStr ty), b_amount = Some (JNum amt),
      b_description = None, b_reference = None, b_metadata = None\<rparr>"

definition demo_account_body :: account_body where
  "demo_account_body =
     \<lparr>c_customerId = Some (JStr ''cust1''), c_shopId = Some (JStr ''shop1''),
      c_creditLimit = Some (JNum 1000)\<rparr>"

definition demo_db_no_account :: db where
  "demo_db_no_account = \<lparr>creditAccounts = [], creditTransactions = [],
              customers = [demo_customer], creditSettings = []\<rparr>"

lemmas demo_defs = demo_customer_def demo_account_def demo_db_def demo_body_def

lemmas eval_defs = demo_defs transactionSchema_parse_def z_enum_type_def POST_def
  payment_update_def update_account_def calculateCreditScore_def Let_def metadata_or_null_def

lemmas sched_eval = calculateNextDelivery_def Number_decimal_def is_digit_def decimal_def
  digit_val_def Let_def msPerDay_def js_trunc_def

section \<open>Properties of the credit ledger\<close>

subsection \<open>The account row after an update\<close>

lemma find_map_update:
  assumes "\<And>a. P (f a) = P a" and "\<And>a. P a \<Longrightarrow> acc_id a = i"
  shows "find P (map (\<lambda>a. if acc_id a = i then f a else a) xs) = map_option f (find P xs)"
  using assms by (induction xs) auto

lemma find_update_account:
  assumes "\<And>a. acc_id (f a) = acc_id a" and "\<And>a. shopId (f a) = shopId a"
  shows "find (\<lambda>a. acc_id a = i \<and> shopId a = s) (creditAccounts (update_account i f st))
         = map_option f (find (\<lambda>a. acc_id a = i \<and> shopId a = s) (creditAccounts st))"
  unfolding update_account_def using assms
  by (simp add: find_map_update [where P = "\<lambda>a. acc_id a = i \<and> shopId a = s"])

lemma creditTransactions_update_account [simp]:
  "creditTransactions (update_account i f st) = creditTransactions st"
  by (simp add: update_account_def)

lemma creditTransactions_payment_update [simp]:
  "creditTransactions (payment_update shop now v acct st) = creditTransactions st"
  by (simp add: payment_update_def Let_def split: option.splits)

text \<open>The second update leaves balance, available credit and limit alone.\<close>

lemma find_payment_update:
  assumes "find (\<lambda>a. acc_id a = v_accountId v \<and> shopId a = s) (creditAccounts st) = Some a"
  shows "\<exists>a'. find (\<lambda>a. acc_id a = v_accountId v \<and> shopId a = s)
                 (creditAccounts (payment_update shop now v acct st)) = Some a'
              \<and> currentBalance a' = currentBalance a
              \<and> availableCredit a' = availableCredit a
              \<and> creditLimit a' = creditLimit a"
  using assms
  by (auto simp: payment_update_def Let_def find_update_account split: option.splits)

subsection \<open>Accepted and rejected requests\<close>

text \<open>
  What an accepted request does: the response is 200, one ledger entry carrying the new
  balance is appended, and the looked-up account holds the new balance and the new
  available credit, capped at the limit.
\<close>

lemma POST_accepted:
  assumes "transactionSchema_parse body = Some v"
    and "find (\<lambda>a. acc_id a = v_accountId v \<and> shopId a = shop) (creditAccounts st) = Some acct"
    and "isActive acct"
    and "apply_type (v_type v) (v_amount v) (currentBalance acct) (availableCredit acct) = (nb, na)"
    and "\<not> nb > creditLimit acct"
  shows "\<exists>st' a'. POST (Some shop) now body st
                     = (Response 200 ''Transaction processed successfully'', st')
            \<and> find (\<lambda>a. acc_id a = v_accountId v \<and> shopId a = shop) (creditAccounts st') = Some a'
            \<and> currentBalance a' = nb
            \<and> availableCredit a' = min (creditLimit acct) na
            \<and> creditLimit a' = creditLimit acct
            \<and> creditTransactions st' = creditTransactions st @
                 [\<lparr>tx_accountId = v_accountId v, tx_type = v_type v,
                   tx_amount = v_amount v, balance = nb,
                   tx_description = v_description v, tx_reference = v_reference v,
                   tx_metadata = metadata_or_null (v_metadata v)\<rparr>]"
proof -
  let ?f = "\<lambda>a. a\<lparr>currentBalance := nb,
                   availableCredit := (if na > creditLimit acct then creditLimit acct else na),
                   updatedAt := now\<rparr>"
  let ?st1 = "st\<lparr>creditTransactions := creditTransactions st @
                 [\<lparr>tx_accountId = v_accountId v, tx_type = v_type v,
                   tx_amount = v_amount v, balance = nb,
                   tx_description = v_description v, tx_reference = v_reference v,
                   tx_metadata = metadata_or_null (v_metadata v)\<rparr>]\<rparr>"
  let ?st2 = "update_account (v_accountId v) ?f ?st1"
  have P: "POST (Some shop) now body st =
             (Response 200 ''Transaction processed successfully'',
              payment_update shop now v acct ?st2)"
    using assms by (simp add: POST_def Let_def)
  have "find (\<lambda>a. acc_id a = v_accountId v \<and> shopId a = shop) (creditAccounts ?st2)
          = Some (?f acct)"
    using assms(2) by (simp add: find_update_account)
  from find_payment_update [OF this, of shop now acct]
  obtain a' where a': "find (\<lambda>a. acc_id a = v_accountId v \<and> shopId a = shop)
                 (creditAccounts (payment_update shop now v acct ?st2)) = Some a'"
     "currentBalance a' = currentBalance (?f acct)"
     "availableCredit a' = availableCredit (?f acct)"
     "creditLimit a' = creditLimit (?f acct)" by blast
  show ?thesis
    using P a' by (auto simp: min_def)
qed

text \<open>A response with status 200 comes from the accepting path only.\<close>

lemma POST_200_D:
  assumes "status (fst (POST auth now body st)) = 200"
  shows "\<exists>shop v acct nb na. auth = Some shop \<and> transactionSchema_parse body = Some v
           \<and> find (\<lambda>a. acc_id a = v_accountId v \<and> shopId a = shop) (creditAccounts st) = Some acct
           \<and> isActive acct
           \<and> apply_type (v_type v) (v_amount v) (currentBalance acct) (availableCredit acct)
               = (nb, na)
           \<and> \<not> nb > creditLimit acct"
  using assms
  by (auto simp: POST_def Let_def split: option.splits if_splits prod.splits)

text \<open>
  The entry appended by an accepted request records the balance the account holds once
  the request is done.
\<close>

lemma POST_entry_snapshot:
  assumes "status (fst (POST auth now body st)) = 200"
  shows "\<exists>shop v a'. auth = Some shop \<and> transactionSchema_parse body = Some v
           \<and> find (\<lambda>a. acc_id a = v_accountId v \<and> shopId a = shop)
                (creditAccounts (snd (POST auth now body st))) = Some a'
           \<and> creditTransactions (snd (POST auth now body st)) \<noteq> []
           \<and> balance (last (creditTransactions (snd (POST auth now body st)))) = currentBalance a'"
proof -
  from POST_200_D [OF assms] obtain shop v acct nb na where
    h: "auth = Some shop" "transactionSchema_parse body = Some v"
       "find (\<lambda>a. acc_id a = v_accountId v \<and> shopId a = shop) (creditAccounts st) = Some acct"
       "isActive acct"
       "apply_type (v_type v) (v_amount v) (currentBalance acct) (availableCredit acct) = (nb, na)"
       "\<not> nb > creditLimit acct"
    by blast
  from POST_accepted [OF h(2-6), of now] h(1,2) show ?thesis
    by auto
qed

text \<open>
  Claim C4. A request on an active account whose computed new balance is above the
  credit limit is answered with status 400 and the message of the limit check, and the
  database is returned as it was: no ledger entry is appended and no account changes.
\<close>

theorem POST_over_limit_rejected:
  assumes "transactionSchema_parse body = Some v"
    and "find (\<lambda>a. acc_id a = v_accountId v \<and> shopId a = shop) (creditAccounts st) = Some acct"
    and "isActive acct"
    and "fst (apply_type (v_type v) (v_amount v) (currentBalance acct) (availableCredit acct))
           > creditLimit acct"
  shows "POST (Some shop) now body st
           = (Response 400 ''Transaction would exceed credit limit'', st)"
  using assms by (auto simp: POST_def split: prod.splits)

theorem POST_over_limit_rejected_witness:
  "POST (Some ''shop1'') 7 (demo_body ''CREDIT'' 200) demo_db
     = (Response 400 ''Transaction would exceed credit limit'', demo_db)"
  using POST_over_limit_rejected [of "demo_body ''CREDIT'' 200"
      "\<lparr>v_accountId = ''acc1'', v_type = CREDIT, v_amount = 200, v_description = None,
        v_reference = None, v_metadata = None\<rparr>" "''shop1''" demo_db demo_account 7]
  by (simp add: demo_defs transactionSchema_parse_def z_enum_type_def)

text \<open>
  Claim C5. An accepted \<open>PAYMENT\<close> of amount \<open>a\<close> on the account with balance \<open>b\<close> and
  available credit \<open>v\<close> leaves that account with balance \<open>b - a\<close> and available credit
  \<open>min creditLimit (v + a)\<close>.
\<close>

theorem POST_payment:
  assumes "status (fst (POST auth now body st)) = 200"
    and "auth = Some shop"
    and "transactionSchema_parse body = Some v"
    and "v_type v = PAYMENT"
    and "find (\<lambda>a. acc_id a = v_accountId v \<and> shopId a = shop) (creditAccounts st) = Some acct"
  shows "\<exists>a'. find (\<lambda>a. acc_id a = v_accountId v \<and> shopId a = shop)
                 (creditAccounts (snd (POST auth now body st))) = Some a'
             \<and> currentBalance a' = currentBalance acct - v_amount v
             \<and> availableCredit a' = min (creditLimit acct) (availableCredit acct + v_amount v)"
proof -
  from POST_200_D [OF assms(1)] assms(2-5)
  have act: "isActive acct" and ok: "\<not> currentBalance acct - v_amount v > creditLimit acct"
    by auto
  have ap: "apply_type (v_type v) (v_amount v) (currentBalance acct) (availableCredit acct)
            = (currentBalance acct - v_amount v, availableCredit acct + v_amount v)"
    using assms(4) by simp
  from POST_accepted [OF assms(3) assms(5) act ap ok, of now]
  show ?thesis using assms(2) by auto
qed

theorem POST_payment_witness:
  "\<exists>a'. find (\<lambda>a. acc_id a = ''acc1'' \<and> shopId a = ''shop1'')
           (creditAccounts (snd (POST (Some ''shop1'') 7 (demo_body ''PAYMENT'' 30) demo_db)))
           = Some a'
        \<and> currentBalance a' = - 30
        \<and> availableCredit a' = 100"
  using POST_payment [of "Some ''shop1''" 7 "demo_body ''PAYMENT'' 30" demo_db "''shop1''"
      "\<lparr>v_accountId = ''acc1'', v_type = PAYMENT, v_amount = 30, v_description = None,
        v_reference = None, v_metadata = None\<rparr>" demo_account]
  by (simp add: eval_defs)

text \<open>
  Claim C6, as stated, fails: a \<open>DEBIT\<close> of 150 on a fresh account with limit 100 and
  available credit 100 is accepted and leaves the available credit at \<open>-50\<close>.
\<close>

theorem POST_available_negative_counterexample:
  "status (fst (POST (Some ''shop1'') 7 (demo_body ''DEBIT'' 150) demo_db)) = 200
   \<and> map availableCredit
        (creditAccounts (snd (POST (Some ''shop1'') 7 (demo_body ''DEBIT'' 150) demo_db)))
       = [- 50]"
  by (simp add: eval_defs)

text \<open>
  Claim C6, amended. After every accepted transaction, of any type, the account has
  \<open>currentBalance \<le> creditLimit\<close> and \<open>availableCredit \<le> creditLimit\<close>; the handler
  applies no lower bound to the available credit.
\<close>

theorem POST_accepted_bounds:
  assumes "status (fst (POST auth now body st)) = 200"
  shows "\<exists>shop v a'. auth = Some shop \<and> transactionSchema_parse body = Some v
           \<and> find (\<lambda>a. acc_id a = v_accountId v \<and> shopId a = shop)
                (creditAccounts (snd (POST auth now body st))) = Some a'
           \<and> currentBalance a' \<le> creditLimit a'
           \<and> availableCredit a' \<le> creditLimit a'"
proof -
  from POST_200_D [OF assms] obtain shop v acct nb na where
    h: "auth = Some shop" "transactionSchema_parse body = Some v"
       "find (\<lambda>a. acc_id a = v_accountId v \<and> shopId a = shop) (creditAccounts st) = Some acct"
       "isActive acct"
       "apply_type (v_type v) (v_amount v) (currentBalance acct) (availableCredit acct) = (nb, na)"
       "\<not> nb > creditLimit acct"
    by blast
  from POST_accepted [OF h(2-6), of now] obtain st' a' where
    r: "POST (Some shop) now body st = (Response 200 ''Transaction processed successfully'', st')"
       "find (\<lambda>a. acc_id a = v_accountId v \<and> shopId a = shop) (creditAccounts st') = Some a'"
       "currentBalance a' = nb" "availableCredit a' = min (creditLimit acct) na"
       "creditLimit a' = creditLimit acct"
    by blast
  have "currentBalance a' \<le> creditLimit a'" "availableCredit a' \<le> creditLimit a'"
    using r(3-5) h(6) by simp_all
  with h(1,2) r(1,2) show ?thesis by simp
qed

theorem POST_accepted_bounds_witness:
  "\<exists>shop v a'. Some ''shop1'' = Some shop
       \<and> transactionSchema_parse (demo_body ''DEBIT'' 150) = Some v
       \<and> find (\<lambda>a. acc_id a = v_accountId v \<and> shopId a = shop)
            (creditAccounts (snd (POST (Some ''shop1'') 7 (demo_body ''DEBIT'' 150) demo_db)))
            = Some a'
       \<and> currentBalance a' \<le> creditLimit a'
       \<and> availableCredit a' \<le> creditLimit a'"
  using POST_accepted_bounds [of "Some ''shop1''" 7 "demo_body ''DEBIT'' 150" demo_db]
  by (simp add: eval_defs)

subsection \<open>Ledger snapshots\<close>

text \<open>
  What account creation writes, whatever the column default \<open>dflt\<close> of
  \<open>currentBalance\<close> is: the new account row carries \<open>dflt\<close>, the initial ledger entry
  carries the credit limit.
\<close>

lemma POST_creditAccount_snapshot:
  assumes "status (fst (POST_creditAccount auth now newId dflt body st)) = 200"
  shows "\<exists>v. createCreditAccountSchema_parse body = Some v
           \<and> map balance (creditTransactions (snd (POST_creditAccount auth now newId dflt body st)))
              = map balance (creditTransactions st) @ [d_creditLimit v]
           \<and> map currentBalance (creditAccounts (snd (POST_creditAccount auth now newId dflt body st)))
              = map currentBalance (creditAccounts st) @ [dflt]"
  using assms
  by (auto simp: POST_creditAccount_def Let_def split: option.splits if_splits)

text \<open>
  Claim C7. The entries appended by the transactions handler record the balance the
  account then holds (\<open>POST_entry_snapshot\<close>). The initial entry of account creation
  does not: creating an account with credit limit 1000, with a column default of 0 for
  \<open>currentBalance\<close>, writes an entry whose balance snapshot is 1000 beside an account
  whose \<open>currentBalance\<close> is 0.
\<close>

theorem POST_creditAccount_initial_entry:
  "fst (POST_creditAccount (Some ''shop1'') 7 ''acc1'' 0 demo_account_body demo_db_no_account)
     = Response 200 ''Credit account created successfully''
   \<and> map balance (creditTransactions
        (snd (POST_creditAccount (Some ''shop1'') 7 ''acc1'' 0 demo_account_body
                demo_db_no_account)))
       = [1000]
   \<and> map currentBalance (creditAccounts
        (snd (POST_creditAccount (Some ''shop1'') 7 ''acc1'' 0 demo_account_body
                demo_db_no_account)))
       = [0]"
  by (simp add: POST_creditAccount_def createCreditAccountSchema_parse_def
      demo_account_body_def demo_db_no_account_def demo_customer_def Let_def)

subsection \<open>Credit score\<close>

text \<open>
  Claim C8, as stated, fails: for \<open>totalOrders = 3\<close> and \<open>totalSpent = 500\<close> and no
  settings the helper returns 75, not 65.
\<close>

theorem calculateCreditScore_3_500_counterexample:
  "calculateCreditScore
     \<lparr>cust_id = ''cust1'', cust_shopId = ''shop1'', totalOrders = 3, totalSpent = 500\<rparr> None
   = 75"
  by (simp add: calculateCreditScore_def)

text \<open>
  The helper of the scoring route does deduct 15 and 20 in its first two bands, and
  then 5 more for the average order value of \<open>500 / 3\<close>; with the adjustment for
  recent orders its result is 50, 60 or 65.
\<close>

lemma calculateCreditScore_scoring_3_500:
  assumes "totalOrders c = 3" and "totalSpent c = 500"
  shows "calculateCreditScore_scoring now c orders None \<in> {50, 60, 65}"
proof -
  define n where
    "n = length (case orders of
               None \<Rightarrow> []
             | Some os \<Rightarrow>
                 filter (\<lambda>createdAt. real_of_int (now - createdAt) / (1000 * 60 * 60 * 24) \<le> 30) os)"
  have "calculateCreditScore_scoring now c orders None
          = (if n = 0 then 50 else if n \<ge> 3 then 65 else 60)"
    unfolding calculateCreditScore_scoring_def Let_def n_def [symmetric]
    by (simp add: assms)
  then show ?thesis by simp
qed

text \<open>
  Claim C8, amended. For \<open>totalOrders = 3\<close> and \<open>totalSpent = 500\<close> the helper returns
  \<open>100 - 10 - 15 = 75\<close>, raised to the settings floor whenever
  \<open>minCreditScore > 75\<close>, and never more than 100.
\<close>

theorem calculateCreditScore_3_500:
  assumes "totalOrders c = 3" and "totalSpent c = 500"
  shows "calculateCreditScore c settings =
           (case settings of None \<Rightarrow> 75 | Some s \<Rightarrow> min 100 (max 75 (minCreditScore s)))"
  using assms by (auto simp: calculateCreditScore_def split: option.splits)

theorem calculateCreditScore_3_500_witness:
  "calculateCreditScore demo_customer
     (Some \<lparr>set_shopId = ''shop1'', minCreditScore = 80, gracePeriod = 7\<rparr>) = 80"
  using calculateCreditScore_3_500 [of demo_customer
          "Some \<lparr>set_shopId = ''shop1'', minCreditScore = 80, gracePeriod = 7\<rparr>"]
  by (simp add: demo_customer_def)

subsection \<open>Validation of the amount\<close>

text \<open>
  The schema does not look at the sign of a numeric amount: an amount and its negation
  are accepted or rejected together, and a body that passed the schema is never
  answered with the validation error.
\<close>

lemma transactionSchema_ignores_sign:
  "transactionSchema_parse (body\<lparr>b_amount := Some (JNum x)\<rparr>) = None
     \<longleftrightarrow> transactionSchema_parse (body\<lparr>b_amount := Some (JNum (- x))\<rparr>) = None"
  by (auto simp: transactionSchema_parse_def split: option.splits)

lemma POST_parsed_no_validation_error:
  assumes "transactionSchema_parse body = Some v"
  shows "message (fst (POST auth now body st)) \<noteq> ''Validation error''"
  using assms
  by (auto simp: POST_def Let_def split: option.splits prod.splits)

text \<open>
  Claim C9. A request with a negative amount is not refused: a \<open>PAYMENT\<close> with amount
  \<open>-50\<close> on the fresh account is answered with status 200, raises the balance of the
  account from 0 to 50 and is appended to the ledger with amount \<open>-50\<close>.
\<close>

theorem POST_negative_amount_accepted:
  "status (fst (POST (Some ''shop1'') 7 (demo_body ''PAYMENT'' (- 50)) demo_db)) = 200
   \<and> map currentBalance
        (creditAccounts (snd (POST (Some ''shop1'') 7 (demo_body ''PAYMENT'' (- 50)) demo_db)))
       = [50]
   \<and> map tx_amount
        (creditTransactions (snd (POST (Some ''shop1'') 7 (demo_body ''PAYMENT'' (- 50)) demo_db)))
       = [- 50]"
  by (simp add: eval_defs)

section \<open>Properties of the delivery scheduler\<close>

subsection \<open>The loops return\<close>

lemma daily_loop_exit: "\<not> date_le d (Date now) \<Longrightarrow> daily_loop now d = Some d"
  by (subst daily_loop.simps) simp

lemma weekly_loop_exit: "\<not> date_le d (Date now) \<Longrightarrow> weekly_loop now d = Some d"
  by (subst weekly_loop.simps) simp

lemma custom_loop_exit: "\<not> date_le d (Date now) \<Longrightarrow> custom_loop tz now days d = Some d"
  by (subst custom_loop.simps) simp

text \<open>
  Each pass moves a valid date forward by whole days, so the distance to \<open>now\<close>
  shrinks: well-founded induction on that distance.
\<close>

lemma daily_loop_total_aux: "\<exists>r. daily_loop now (Date t) = Some r"
proof (induction "nat (now - t + 1)" arbitrary: t rule: less_induct)
  case less
  show ?case
  proof (cases "t \<le> now")
    case True
    have "nat (now - (t + 1 * msPerDay) + 1) < nat (now - t + 1)"
      using True by (simp add: msPerDay_def)
    from less [OF this] obtain r where "daily_loop now (Date (t + 1 * msPerDay)) = Some r"
      by blast
    then show ?thesis using True by (subst daily_loop.simps) simp
  next
    case False
    then show ?thesis by (simp add: daily_loop_exit)
  qed
qed

lemma daily_loop_total: "\<exists>r. daily_loop now d = Some r"
  by (cases d) (simp_all add: daily_loop_exit daily_loop_total_aux)

lemma weekly_loop_total_aux: "\<exists>r. weekly_loop now (Date t) = Some r"
proof (induction "nat (now - t + 1)" arbitrary: t rule: less_induct)
  case less
  show ?case
  proof (cases "t \<le> now")
    case True
    have "nat (now - (t + 7 * msPerDay) + 1) < nat (now - t + 1)"
      using True by (simp add: msPerDay_def)
    from less [OF this] obtain r where "weekly_loop now (Date (t + 7 * msPerDay)) = Some r"
      by blast
    then show ?thesis using True by (subst weekly_loop.simps) simp
  next
    case False
    then show ?thesis by (simp add: weekly_loop_exit)
  qed
qed

lemma weekly_loop_total: "\<exists>r. weekly_loop now d = Some r"
  by (cases d) (simp_all add: weekly_loop_exit weekly_loop_total_aux)

lemma custom_loop_total_aux: "\<exists>r. custom_loop tz now days (Date t) = Some r"
proof (induction "nat (now - t + 1)" arbitrary: t rule: less_induct)
  case less
  show ?case
  proof (cases "t \<le> now")
    case True
    have "nat (now - (t + 1 * msPerDay) + 1) < nat (now - t + 1)"
      using True by (simp add: msPerDay_def)
    from less [OF this]
    obtain r where "custom_loop tz now days (Date (t + 1 * msPerDay)) = Some r"
      by blast
    then show ?thesis using True by (subst custom_loop.simps) (simp add: Let_def)
  next
    case False
    then show ?thesis by (simp add: custom_loop_exit)
  qed
qed

lemma custom_loop_total: "\<exists>r. custom_loop tz now days d = Some r"
  by (cases d) (simp_all add: custom_loop_exit custom_loop_total_aux)

subsection \<open>Well-formed delivery times\<close>

lemma digit_not_colon: "is_digit c \<Longrightarrow> c \<noteq> CHR '':''"
  by (auto simp: is_digit_def)

lemma digit_val_le_9: "is_digit c \<Longrightarrow> digit_val c \<le> 9"
  by (auto simp: is_digit_def digit_val_def)

lemma valid_deliveryTime_split:
  assumes "valid_deliveryTime s"
  shows "\<exists>hh mm. split_js (CHR '':'') s = [hh, mm]
           \<and> hh \<noteq> [] \<and> list_all is_digit hh \<and> decimal hh \<le> 23
           \<and> mm \<noteq> [] \<and> list_all is_digit mm \<and> decimal mm \<le> 59"
  using assms
proof (cases s rule: valid_deliveryTime.cases)
  case (1 h c m1 m2)
  with assms have h: "is_digit h" "c = CHR '':''" "is_digit m1" "digit_val m1 \<le> 5" "is_digit m2"
    by simp_all
  have "split_js (CHR '':'') s = [[h], [m1, m2]]"
    using 1 h digit_not_colon by simp
  moreover have "decimal [h] \<le> 23"
    using digit_val_le_9 [OF h(1)] by (simp add: decimal_def)
  moreover have "decimal [m1, m2] \<le> 59"
    using digit_val_le_9 [OF h(5)] h(4) by (simp add: decimal_def)
  ultimately show ?thesis using h by simp
next
  case (2 h1 h2 c m1 m2)
  with assms have h: "is_digit h1" "is_digit h2"
      "digit_val h1 \<le> 1 \<or> (digit_val h1 = 2 \<and> digit_val h2 \<le> 3)"
      "c = CHR '':''" "is_digit m1" "digit_val m1 \<le> 5" "is_digit m2"
    by simp_all
  have "split_js (CHR '':'') s = [[h1, h2], [m1, m2]]"
    using 2 h digit_not_colon by simp
  moreover have "decimal [h1, h2] \<le> 23"
    using digit_val_le_9 [OF h(2)] h(3) by (auto simp: decimal_def)
  moreover have "decimal [m1, m2] \<le> 59"
    using digit_val_le_9 [OF h(7)] h(6) by (simp add: decimal_def)
  ultimately show ?thesis using h by simp
qed (use assms in simp_all)

lemma valid_deliveryTime_numbers:
  assumes "valid_deliveryTime s" and "reads_decimals toNumber"
  shows "\<exists>h m. map toNumber (split_js (CHR '':'') s) = [Some (real h), Some (real m)]
           \<and> h \<le> 23 \<and> m \<le> 59"
proof -
  from valid_deliveryTime_split [OF assms(1)] obtain hh mm where
    s: "split_js (CHR '':'') s = [hh, mm]" "hh \<noteq> []" "list_all is_digit hh" "decimal hh \<le> 23"
       "mm \<noteq> []" "list_all is_digit mm" "decimal mm \<le> 59"
    by blast
  have "toNumber hh = Some (real (decimal hh))" "toNumber mm = Some (real (decimal mm))"
    using assms(2) s unfolding reads_decimals_def by blast+
  with s show ?thesis by simp
qed

lemma reads_decimals_Number_decimal: "reads_decimals Number_decimal"
  by (simp add: reads_decimals_def Number_decimal_def)

lemma js_trunc_of_nat [simp]: "js_trunc (real n) = int n"
  by (simp add: js_trunc_def)

subsection \<open>The candidate before the loops\<close>

lemma start_of_day_bound: "((b + tz) div msPerDay) * msPerDay - tz + msPerDay > b"
proof -
  have "(b + tz) mod msPerDay < msPerDay" by (simp add: msPerDay_def)
  moreover have "((b + tz) div msPerDay) * msPerDay = (b + tz) - (b + tz) mod msPerDay"
    by (simp add: algebra_simps minus_mod_eq_mult_div [symmetric])
  ultimately show ?thesis by linarith
qed

text \<open>
  With a time of day of \<open>h\<close> hours and \<open>m\<close> minutes, the candidate after \<open>setHours\<close>
  and the one-day advance is a valid date after \<open>now\<close>.
\<close>

lemma candidate_after_now:
  fixes h m :: nat
  shows "\<exists>c. (let nextDate = (if date_lt (Date s) (Date now) then Date now else Date s);
                  nextDate = setHours tz nextDate (Some (real h)) (Some (real m))
              in (if date_le nextDate (Date now) then setDate_plus nextDate 1 else nextDate))
             = Date c \<and> now < c"
proof -
  define b where "b = (if s < now then now else s)"
  define c0 where
    "c0 = ((b + tz) div msPerDay) * msPerDay + int h * 3600000 + int m * 60000 - tz"
  have bn: "now \<le> b" by (simp add: b_def)
  have "b < c0 + msPerDay"
    using start_of_day_bound [of b tz] by (simp add: c0_def)
  with bn have "now < c0 + msPerDay" by linarith
  then have "now < (if c0 \<le> now then c0 + 1 * msPerDay else c0)" by simp
  moreover have "(let nextDate = (if date_lt (Date s) (Date now) then Date now else Date s);
                  nextDate = setHours tz nextDate (Some (real h)) (Some (real m))
              in (if date_le nextDate (Date now) then setDate_plus nextDate 1 else nextDate))
        = Date (if c0 \<le> now then c0 + 1 * msPerDay else c0)"
    by (simp add: Let_def b_def c0_def)
  ultimately show ?thesis by blast
qed

text \<open>
  For a well-formed delivery time none of the loops runs: the result is the candidate,
  whatever the frequency and the delivery days are.
\<close>

lemma calculateNextDelivery_valid_time:
  assumes "valid_deliveryTime deliveryTime" and "reads_decimals toNumber"
  shows "\<exists>c. now < c \<and>
           (\<forall>frequency deliveryDays.
              calculateNextDelivery toNumber tz now frequency deliveryTime deliveryDays (Date s)
                = Some (Date c))"
proof -
  from valid_deliveryTime_numbers [OF assms] obtain h m where
    p: "map toNumber (split_js (CHR '':'') deliveryTime) = [Some (real h), Some (real m)]"
    by auto
  from candidate_after_now [of s now tz h m] obtain c where
    c: "(let nextDate = (if date_lt (Date s) (Date now) then Date now else Date s);
             nextDate = setHours tz nextDate (Some (real h)) (Some (real m))
         in (if date_le nextDate (Date now) then setDate_plus nextDate 1 else nextDate))
        = Date c" "now < c"
    by blast
  have ex: "\<not> date_le (Date c) (Date now)" using c(2) by simp
  have "calculateNextDelivery toNumber tz now frequency deliveryTime deliveryDays (Date s)
                = Some (Date c)" for frequency deliveryDays
    unfolding calculateNextDelivery_def p Let_def list.case c(1) [unfolded Let_def]
    by (simp add: daily_loop_exit [OF ex] weekly_loop_exit [OF ex] custom_loop_exit [OF ex]
          split: option.split)
  with c(2) show ?thesis by blast
qed

subsection \<open>The claims\<close>

text \<open>
  Claim C1. For a frequency among \<open>daily\<close>, \<open>weekly\<close> and \<open>custom\<close>, a delivery time
  that matches the schema's pattern for \<open>HH:MM\<close>, any reference instant and any
  \<open>now\<close>, the call returns, and the instant returned is strictly after \<open>now\<close>.
\<close>

theorem calculateNextDelivery_future:
  assumes "frequency \<in> {''daily'', ''weekly'', ''custom''}"
    and "valid_deliveryTime deliveryTime" and "reads_decimals toNumber"
  shows "\<exists>r. calculateNextDelivery toNumber tz now frequency deliveryTime deliveryDays
                (Date referenceInstant) = Some (Date r) \<and> now < r"
  using calculateNextDelivery_valid_time [OF assms(2,3), of now tz referenceInstant] by blast

theorem calculateNextDelivery_future_witness:
  "\<exists>r. calculateNextDelivery Number_decimal 0 1705399200000 ''custom'' ''06:00''
          (Some ''monday,thursday'') (Date 1705399200000) = Some (Date r) \<and> 1705399200000 < r"
  using calculateNextDelivery_future [of "''custom''" "''06:00''" Number_decimal 0 1705399200000
          "Some ''monday,thursday''" 1705399200000]
  by (simp add: reads_decimals_Number_decimal is_digit_def digit_val_def)

text \<open>
  Claim C2. The result of a \<open>custom\<close> call need not fall on a day of the mask. In UTC,
  with \<open>now\<close> and the start date at Tuesday 2024-01-16 10:00, delivery time \<open>06:00\<close>
  and delivery days \<open>monday,thursday\<close>, the call returns Wednesday 2024-01-17 06:00.
\<close>

theorem custom_ignores_dayMask:
  "calculateNextDelivery Number_decimal 0 1705399200000 ''custom'' ''06:00''
      (Some ''monday,thursday'') (Date 1705399200000) = Some (Date 1705471200000)
   \<and> dayOfWeek 0 (Date 1705471200000) = Some ''wednesday''
   \<and> map (\<lambda>d. toLowerCase (trim d)) (split_js (CHR '','') ''monday,thursday'')
       = [''monday'', ''thursday'']"
  by (simp add: sched_eval custom_loop_exit getDay_def dayNames_def toLowerCase_def trim_def
        is_space_def)

text \<open>
  Claim C3. A \<open>weekly\<close> call does not step in weeks. In UTC, with \<open>now\<close> at Monday
  2024-01-15 07:00, a start date two weeks earlier (Monday 2024-01-01 07:00) and
  delivery time \<open>06:00\<close>, the call returns Tuesday 2024-01-16 06:00, not the next
  Monday.
\<close>

theorem weekly_same_as_daily:
  "calculateNextDelivery Number_decimal 0 1705302000000 ''weekly'' ''06:00'' None
      (Date 1704092400000) = Some (Date 1705384800000)
   \<and> dayOfWeek 0 (Date 1704092400000) = Some ''monday''
   \<and> dayOfWeek 0 (Date 1705302000000) = Some ''monday''
   \<and> dayOfWeek 0 (Date 1705384800000) = Some ''tuesday''"
  by (simp add: sched_eval weekly_loop_exit getDay_def dayNames_def)

text \<open>
  Claim C10. The call returns for every input: any frequency string, any delivery
  time, delivery days that are absent, empty or malformed, a valid or invalid start
  date, and whatever \<open>Number\<close> makes of the pieces of the delivery time. When the
  delivery time is well-formed and the start date valid, the candidate after the
  one-day advance is already after \<open>now\<close> and is the result for every frequency and
  every choice of delivery days, so no loop body runs.
\<close>

theorem calculateNextDelivery_returns:
  "(\<exists>r. calculateNextDelivery toNumber tz now frequency deliveryTime deliveryDays startDate
           = Some r)
   \<and> (valid_deliveryTime deliveryTime \<and> reads_decimals toNumber \<and> startDate = Date s
        \<longrightarrow> (\<exists>c. now < c \<and>
               (\<forall>f dd. calculateNextDelivery toNumber tz now f deliveryTime dd startDate
                          = Some (Date c))))"
proof
  show "\<exists>r. calculateNextDelivery toNumber tz now frequency deliveryTime deliveryDays startDate
              = Some r"
    unfolding calculateNextDelivery_def Let_def
    by (simp add: daily_loop_total weekly_loop_total custom_loop_total split: option.split)
next
  show "valid_deliveryTime deliveryTime \<and> reads_decimals toNumber \<and> startDate = Date s
        \<longrightarrow> (\<exists>c. now < c \<and>
               (\<forall>f dd. calculateNextDelivery toNumber tz now f deliveryTime dd startDate
                          = Some (Date c)))"
    using calculateNextDelivery_valid_time [of deliveryTime toNumber now tz s] by blast
qed

theorem calculateNextDelivery_returns_witness:
  "(\<exists>r. calculateNextDelivery Number_decimal 0 1705399200000 ''custom'' ''06:00'' (Some '', ,x'')
           (Date 1705399200000) = Some r)
   \<and> (\<exists>c. 1705399200000 < c \<and>
         (\<forall>f dd. calculateNextDelivery Number_decimal 0 1705399200000 f ''06:00'' dd
                    (Date 1705399200000) = Some (Date c)))"
  using calculateNextDelivery_returns [of Number_decimal 0 1705399200000 "''custom''" "''06:00''"
          "Some '', ,x''" "Date 1705399200000" 1705399200000]
  by (simp add: reads_decimals_Number_decimal is_digit_def digit_val_def)

end
